theory Spec2Isabelle
  imports Main
begin

section \<open>Effects shared by the two components\<close>

text \<open>
  Both gate functions of \<^verbatim>\<open>middlewares/authMiddleware.js\<close> are JavaScript functions whose
  whole body is a \<^verbatim>\<open>try { ... } catch (error) { ... }\<close>. A statement either completes
  and leaves a changed state, or throws and leaves the state as changed so far. A
  computation is therefore a function from the state to an outcome (\<open>Inl\<close> the thrown
  error, \<open>Inr\<close> the returned value) paired with the state reached.
\<close>

datatype js_error =
    TypeError string
  | VerificationError string
  | StoreError string
  | SyntaxError string

type_synonym ('s, 'a) comp = "'s \<Rightarrow> (js_error + 'a) \<times> 's"

definition and_then :: "('s, 'a) comp \<Rightarrow> ('a \<Rightarrow> ('s, 'b) comp) \<Rightarrow> ('s, 'b) comp" where
  "and_then m f s = (case m s of (Inl e, s') \<Rightarrow> (Inl e, s') | (Inr v, s') \<Rightarrow> f v s')"

definition try_catch :: "('s, 'a) comp \<Rightarrow> (js_error \<Rightarrow> ('s, 'a) comp) \<Rightarrow> ('s, 'a) comp" where
  "try_catch body handler s =
     (case body s of (Inl e, s') \<Rightarrow> handler e s' | (Inr v, s') \<Rightarrow> (Inr v, s'))"

section \<open>AuthGate: \<^verbatim>\<open>middlewares/authMiddleware.js\<close>\<close>

subsection \<open>Data\<close>

text \<open>
  The decoded payload of a credential. The middleware reads only its \<^verbatim>\<open>_id\<close>
  (\<^verbatim>\<open>req.user._id\<close>); \<open>sub_id\<close> is that field.
\<close>

record claims =
  sub_id :: string
  exp :: nat

text \<open>The identity record of the user model; \<^verbatim>\<open>role\<close> is numeric, \<open>1\<close> is the administrator.\<close>

record user_doc =
  doc_id :: string
  role :: int

text \<open>\<^verbatim>\<open>req\<close>: the one header the gate reads, and the \<^verbatim>\<open>user\<close> property it writes.\<close>

record request =
  authorization :: "string option"
  user :: "claims option"

text \<open>
  What \<^verbatim>\<open>res.status(code).send(body)\<close> was given. A body without the \<^verbatim>\<open>error\<close> key
  has \<open>error = None\<close>.
\<close>

record body =
  success :: bool
  error :: "js_error option"
  message :: string

record response =
  status :: nat
  payload :: body

datatype log_entry = LogText string | LogError js_error

text \<open>
  The state one request runs in: the request object, the responses sent so far (oldest
  first), the console, and the calls made to the two collaborators and to a recording
  \<^verbatim>\<open>next\<close>.
\<close>

record ctx =
  req :: request
  sent :: "response list"
  console :: "log_entry list"
  verify_calls :: "(string \<times> string option) list"
  lookup_calls :: "string list"
  next_calls :: nat

text \<open>
  The collaborators, which are not part of the repository's sources: the
  \<^verbatim>\<open>jsonwebtoken\<close> verification (returns the payload or throws), the secret
  \<^verbatim>\<open>process.env.JWT_SECRET\<close> (a string or undefined) and the user model's lookup by id
  (resolves to a document, resolves to null, or rejects).
\<close>

record env =
  verify_fn :: "string \<Rightarrow> string option \<Rightarrow> js_error + claims"
  JWT_SECRET :: "string option"
  lookup_fn :: "string \<Rightarrow> js_error + user_doc option"

subsection \<open>Primitive statements\<close>

definition console_log :: "log_entry \<Rightarrow> (ctx, unit) comp" where
  "console_log x s = (Inr (), s\<lparr>console := console s @ [x]\<rparr>)"

definition res_send :: "nat \<Rightarrow> body \<Rightarrow> (ctx, unit) comp" where
  "res_send code b s = (Inr (), s\<lparr>sent := sent s @ [\<lparr>status = code, payload = b\<rparr>]\<rparr>)"

definition JWT_verify :: "env \<Rightarrow> string \<Rightarrow> string option \<Rightarrow> (ctx, claims) comp" where
  "JWT_verify env token secret s =
     (verify_fn env token secret, s\<lparr>verify_calls := verify_calls s @ [(token, secret)]\<rparr>)"

definition findById :: "env \<Rightarrow> string \<Rightarrow> (ctx, user_doc option) comp" where
  "findById env uid s = (lookup_fn env uid, s\<lparr>lookup_calls := lookup_calls s @ [uid]\<rparr>)"

definition set_req_user :: "claims \<Rightarrow> (ctx, unit) comp" where
  "set_req_user decode s = (Inr (), s\<lparr>req := (req s)\<lparr>user := Some decode\<rparr>\<rparr>)"

text \<open>\<^verbatim>\<open>req.user._id\<close>: reading a property of undefined throws a TypeError.\<close>

definition req_user_id :: "(ctx, string) comp" where
  "req_user_id s =
     (case user (req s) of
        None \<Rightarrow> (Inl (TypeError ''Cannot read properties of undefined (reading '_id')''), s)
      | Some c \<Rightarrow> (Inr (sub_id c), s))"

text \<open>\<^verbatim>\<open>user.role\<close>: reading a property of null throws a TypeError.\<close>

definition user_role :: "user_doc option \<Rightarrow> (ctx, int) comp" where
  "user_role u s =
     (case u of
        None \<Rightarrow> (Inl (TypeError ''Cannot read properties of null (reading 'role')''), s)
      | Some d \<Rightarrow> (Inr (role d), s))"

text \<open>
  A \<^verbatim>\<open>next\<close> that records that it was called and returns, as a mock function does and
  as the router's own continuation does towards the middleware that calls it.
\<close>

definition next_fn :: "(ctx, unit) comp" where
  "next_fn s = (Inr (), s\<lparr>next_calls := Suc (next_calls s)\<rparr>)"

subsection \<open>Strings\<close>

definition startsWith :: "string \<Rightarrow> string \<Rightarrow> bool" where
  "startsWith str prefix \<longleftrightarrow> take (length prefix) str = prefix"

definition substring :: "string \<Rightarrow> nat \<Rightarrow> string" where
  "substring str start = drop start str"

text \<open>The token the middleware passes on, lines 13 to 15.\<close>

definition token_of :: "string \<Rightarrow> string" where
  "token_of authHeader =
     (if startsWith authHeader ''Bearer '' then substring authHeader (length ''Bearer '')
      else authHeader)"

subsection \<open>The two gate functions\<close>

definition missing_token :: body where
  "missing_token = \<lparr>success = False, error = None, message = ''Unauthorized: Missing token''\<rparr>"

definition invalid_token :: body where
  "invalid_token = \<lparr>success = False, error = None, message = ''Unauthorized: Invalid token''\<rparr>"

definition unauthorized_access :: body where
  "unauthorized_access = \<lparr>success = False, error = None, message = ''UnAuthorized Access''\<rparr>"

definition admin_middleware_error :: "js_error \<Rightarrow> body" where
  "admin_middleware_error e =
     \<lparr>success = False, error = Some e, message = ''Error in admin middleware''\<rparr>"

definition reject_missing_token :: "(ctx, unit) comp" where
  "reject_missing_token =
     and_then (console_log (LogText ''Missing authorization token''))
       (\<lambda>_. res_send 401 missing_token)"

definition requireSignIn :: "env \<Rightarrow> (ctx, unit) comp \<Rightarrow> (ctx, unit) comp" where
  "requireSignIn env next =
     try_catch
       (\<lambda>s. case authorization (req s) of
               None \<Rightarrow> reject_missing_token s
             | Some authHeader \<Rightarrow>
                 if authHeader = [] then reject_missing_token s
                 else and_then (JWT_verify env (token_of authHeader) (JWT_SECRET env))
                        (\<lambda>decode. and_then (set_req_user decode) (\<lambda>_. next)) s)
       (\<lambda>error. and_then (console_log (LogError error)) (\<lambda>_. res_send 401 invalid_token))"

definition isAdmin :: "env \<Rightarrow> (ctx, unit) comp \<Rightarrow> (ctx, unit) comp" where
  "isAdmin env next =
     try_catch
       (and_then req_user_id
          (\<lambda>uid. and_then (findById env uid)
             (\<lambda>u. and_then (user_role u)
                (\<lambda>r. if r \<noteq> 1 then res_send 401 unauthorized_access else next))))
       (\<lambda>error. and_then (console_log (LogError error))
                  (\<lambda>_. res_send 401 (admin_middleware_error error)))"

subsection \<open>An admin-gated route\<close>

text \<open>
  A route that lists \<^verbatim>\<open>requireSignIn, isAdmin, handler\<close>: the router passes each function
  a \<^verbatim>\<open>next\<close> that runs the following one, so the handler runs only if both gates
  call their \<^verbatim>\<open>next\<close>.
\<close>

definition admin_gated :: "env \<Rightarrow> (ctx, unit) comp \<Rightarrow> (ctx, unit) comp" where
  "admin_gated env handler = requireSignIn env (isAdmin env handler)"

subsection \<open>A concrete environment and request\<close>

definition demo_env :: env where
  "demo_env =
     \<lparr>verify_fn = (\<lambda>token secret.
        if token = ''good.jwt'' \<and> secret = Some ''s3cret''
        then Inr \<lparr>sub_id = ''u1'', exp = 1700000000\<rparr>
        else if token = ''user.jwt'' \<and> secret = Some ''s3cret''
        then Inr \<lparr>sub_id = ''u2'', exp = 1700000000\<rparr>
        else Inl (VerificationError ''invalid signature'')),
      JWT_SECRET = Some ''s3cret'',
      lookup_fn = (\<lambda>uid.
        if uid = ''u1'' then Inr (Some \<lparr>doc_id = ''u1'', role = 1\<rparr>)
        else if uid = ''u2'' then Inr (Some \<lparr>doc_id = ''u2'', role = 0\<rparr>)
        else if uid = ''u3'' then Inl (StoreError ''connection lost'')
        else Inr None)\<rparr>"

definition arriving :: "string option \<Rightarrow> ctx" where
  "arriving h =
     \<lparr>req = \<lparr>authorization = h, user = None\<rparr>, sent = [], console = [],
      verify_calls = [], lookup_calls = [], next_calls = 0\<rparr>"

definition signed_in :: "string \<Rightarrow> ctx" where
  "signed_in uid =
     \<lparr>req = \<lparr>authorization = Some ''Bearer good.jwt'',
             user = Some \<lparr>sub_id = uid, exp = 1700000000\<rparr>\<rparr>,
      sent = [], console = [], verify_calls = [], lookup_calls = [], next_calls = 0\<rparr>"

section \<open>PersistedStateStore\<close>

text \<open>
  The provider that implements the store (\<^verbatim>\<open>context/cart\<close>, imported by the tests) is not
  among the sources; its tests are. The operations below follow section 4.2 of the
  specification, over the storage interface of its section 6
  (\<^verbatim>\<open>get(key)\<close>, \<^verbatim>\<open>set(key, string)\<close>, \<^verbatim>\<open>remove(key)\<close>).
\<close>

datatype storage_op = GetItem string | SetItem string string | RemoveItem string

text \<open>What outlives the process: the durable storage, the calls issued to it, the error log.\<close>

record device =
  durable :: "string \<rightharpoonup> string"
  issued :: "storage_op list"
  error_log :: "js_error list"

text \<open>
  Serialisation of the slot's type: \<open>deserialize\<close> throws on a string that is not
  parseable as the expected structure; \<open>empty_value\<close> is the type's defined empty value.
\<close>

record 'v codec =
  serialize :: "'v \<Rightarrow> string"
  deserialize :: "string \<Rightarrow> js_error + 'v"
  empty_value :: "'v"

record 'v store =
  slot :: string
  current :: "'v"
  observers :: "nat list"
  delivered :: "(nat \<times> 'v) list"
  dev :: device

datatype 'v set_arg = Literal "'v" | Updater "'v \<Rightarrow> 'v"

definition return_value :: "'a \<Rightarrow> ('s, 'a) comp" where
  "return_value v s = (Inr v, s)"

definition storage_get :: "string \<Rightarrow> (device, string option) comp" where
  "storage_get key d = (Inr (durable d key), d\<lparr>issued := issued d @ [GetItem key]\<rparr>)"

definition storage_set :: "string \<Rightarrow> string \<Rightarrow> (device, unit) comp" where
  "storage_set key str d =
     (Inr (), d\<lparr>issued := issued d @ [SetItem key str], durable := (durable d)(key \<mapsto> str)\<rparr>)"

definition storage_remove :: "string \<Rightarrow> (device, unit) comp" where
  "storage_remove key d =
     (Inr (), d\<lparr>issued := issued d @ [RemoveItem key], durable := (durable d)(key := None)\<rparr>)"

definition log_error :: "js_error \<Rightarrow> (device, unit) comp" where
  "log_error e d = (Inr (), d\<lparr>error_log := error_log d @ [e]\<rparr>)"

definition parse_stored :: "'v codec \<Rightarrow> string \<Rightarrow> (device, 'v) comp" where
  "parse_stored c raw d = (deserialize c raw, d)"

text \<open>Modelled from the spec: \<^verbatim>\<open>initialize(name)\<close> of the PersistedStateStore, whose
  implementation (the provider's mount-time read) is missing. Read the raw value; absent:
  the empty value, no write-back; present and not parseable: log the error, remove the
  key, fall back to the empty value; present and parseable: the deserialised value.
\<close>

definition initialize :: "'v codec \<Rightarrow> string \<Rightarrow> (device, 'v) comp" where
  "initialize c name =
     and_then (storage_get name)
       (\<lambda>raw. case raw of
                None \<Rightarrow> return_value (empty_value c)
              | Some str \<Rightarrow>
                  try_catch (parse_stored c str)
                    (\<lambda>e. and_then (log_error e)
                           (\<lambda>_. and_then (storage_remove name)
                                  (\<lambda>_. return_value (empty_value c)))))"

text \<open>Modelled from the spec: \<^verbatim>\<open>set(nextValueOrUpdater)\<close> of the PersistedStateStore, whose
  implementation (the provider's setter and its persisting effect) is missing. In order:
  compute the next value, from the most recent in-memory value for an updater; update the
  in-memory value; notify every current observer with the new value; serialise and write
  the new value to durable storage under the slot's name.
\<close>

definition set_value :: "'v codec \<Rightarrow> 'v set_arg \<Rightarrow> 'v store \<Rightarrow> 'v store" where
  "set_value c arg st =
     (let nxt = (case arg of Literal v \<Rightarrow> v | Updater f \<Rightarrow> f (current st));
          st1 = st\<lparr>current := nxt\<rparr>;
          st2 = st1\<lparr>delivered := delivered st1 @ map (\<lambda>ob. (ob, nxt)) (observers st1)\<rparr>
      in st2\<lparr>dev := snd (storage_set (slot st2) (serialize c nxt) (dev st2))\<rparr>)"

subsection \<open>A concrete slot: a cart of item ids\<close>

text \<open>
  A small serialisation of a list of item ids, \<^verbatim>\<open>[a,b,c]\<close>, to run the store on: ids are
  written between brackets and separated by commas; anything else does not parse.
\<close>

fun join_ids :: "string list \<Rightarrow> string" where
  "join_ids [] = []"
| "join_ids [x] = x"
| "join_ids (x # y # ys) = x @ '','' @ join_ids (y # ys)"

fun split_ids :: "string \<Rightarrow> string \<Rightarrow> string list" where
  "split_ids cur [] = [rev cur]"
| "split_ids cur (ch # rest) =
     (if ch = CHR '','' then rev cur # split_ids [] rest else split_ids (ch # cur) rest)"

definition stringify_ids :: "string list \<Rightarrow> string" where
  "stringify_ids ids = ''['' @ join_ids ids @ '']''"

definition parse_ids :: "string \<Rightarrow> js_error + string list" where
  "parse_ids raw =
     (case raw of
        [] \<Rightarrow> Inl (SyntaxError ''Unexpected end of JSON input'')
      | ch # rest \<Rightarrow>
          if ch = CHR ''['' \<and> rest \<noteq> [] \<and> last rest = CHR '']''
          then Inr (if butlast rest = [] then [] else split_ids [] (butlast rest))
          else Inl (SyntaxError ''Unexpected token''))"

definition cart_codec :: "string list codec" where
  "cart_codec = \<lparr>serialize = stringify_ids, deserialize = parse_ids, empty_value = []\<rparr>"

definition empty_device :: device where
  "empty_device = \<lparr>durable = Map.empty, issued = [], error_log = []\<rparr>"

definition corrupt_device :: device where
  "corrupt_device = \<lparr>durable = [''cart'' \<mapsto> ''{not-json''], issued = [], error_log = []\<rparr>"

definition cart_store :: "string list \<Rightarrow> string list store" where
  "cart_store ids =
     \<lparr>slot = ''cart'', current = ids, observers = [0], delivered = [], dev = empty_device\<rparr>"

section \<open>Unfolding the statements\<close>

lemmas gate_defs =
  try_catch_def and_then_def console_log_def res_send_def JWT_verify_def findById_def
  set_req_user_def req_user_id_def user_role_def next_fn_def reject_missing_token_def
  missing_token_def invalid_token_def unauthorized_access_def admin_middleware_error_def

lemmas store_defs =
  try_catch_def and_then_def return_value_def storage_get_def storage_set_def
  storage_remove_def log_error_def parse_stored_def

lemmas cart_defs =
  cart_codec_def stringify_ids_def parse_ids_def empty_device_def corrupt_device_def
  cart_store_def

section \<open>AuthGate: what the gates answer\<close>

lemma token_of_bearer: "token_of (''Bearer '' @ t) = t"
  by (simp add: token_of_def startsWith_def substring_def)

lemma token_of_bare: "\<not> startsWith t ''Bearer '' \<Longrightarrow> token_of t = t"
  by (simp add: token_of_def)

text \<open>
  The two cases of \<^verbatim>\<open>isAdmin\<close> in which the lookup finds a record: any role other than
  \<open>1\<close> is answered with 401 and \<^verbatim>\<open>UnAuthorized Access\<close>, and role \<open>1\<close> calls \<^verbatim>\<open>next\<close>
  and sends nothing.
\<close>

lemma isAdmin_other_role:
  assumes "user (req s) = Some c"
    and "lookup_fn env (sub_id c) = Inr (Some u)"
    and "role u \<noteq> 1"
  shows "isAdmin env next s =
     (Inr (),
      s\<lparr>lookup_calls := lookup_calls s @ [sub_id c],
        sent := sent s @
          [\<lparr>status = 401,
            payload = \<lparr>success = False, error = None, message = ''UnAuthorized Access''\<rparr>\<rparr>]\<rparr>)"
  using assms by (simp add: isAdmin_def gate_defs)

lemma isAdmin_role_1:
  assumes "user (req s) = Some c"
    and "lookup_fn env (sub_id c) = Inr (Some u)"
    and "role u = 1"
  shows "isAdmin env next_fn s =
     (Inr (),
      s\<lparr>lookup_calls := lookup_calls s @ [sub_id c], next_calls := Suc (next_calls s)\<rparr>)"
  using assms by (simp add: isAdmin_def gate_defs)

text \<open>
  The rejecting cases of \<^verbatim>\<open>requireSignIn\<close>, whatever \<^verbatim>\<open>next\<close> is: it is not run.
\<close>

lemma requireSignIn_empty_header:
  assumes "authorization (req s) = Some []"
  shows "requireSignIn env next s =
     (Inr (),
      s\<lparr>console := console s @ [LogText ''Missing authorization token''],
        sent := sent s @
          [\<lparr>status = 401,
            payload = \<lparr>success = False, error = None,
                       message = ''Unauthorized: Missing token''\<rparr>\<rparr>]\<rparr>)"
  using assms by (simp add: requireSignIn_def gate_defs)

lemma requireSignIn_none_header:
  assumes "authorization (req s) = None"
  shows "requireSignIn env next s =
     (Inr (),
      s\<lparr>console := console s @ [LogText ''Missing authorization token''],
        sent := sent s @
          [\<lparr>status = 401,
            payload = \<lparr>success = False, error = None,
                       message = ''Unauthorized: Missing token''\<rparr>\<rparr>]\<rparr>)"
  using assms by (simp add: requireSignIn_def gate_defs)

lemma requireSignIn_rejected_token:
  assumes "authorization (req s) = Some h"
    and "h \<noteq> []"
    and "verify_fn env (token_of h) (JWT_SECRET env) = Inl e"
  shows "requireSignIn env next s =
     (Inr (),
      s\<lparr>verify_calls := verify_calls s @ [(token_of h, JWT_SECRET env)],
        console := console s @ [LogError e],
        sent := sent s @
          [\<lparr>status = 401,
            payload = \<lparr>success = False, error = None,
                       message = ''Unauthorized: Invalid token''\<rparr>\<rparr>]\<rparr>)"
  using assms by (simp add: requireSignIn_def gate_defs)

text \<open>
  C1. The claim: whenever the lookup yields no record, or a record whose role is not the
  privileged one, \<^verbatim>\<open>isAdmin\<close> answers 401 with the body
  \<^verbatim>\<open>{success:false, message:"UnAuthorized Access"}\<close>, and it admits a record with the
  privileged role. The code reads \<^verbatim>\<open>user.role\<close> without testing \<^verbatim>\<open>user\<close>: when the lookup
  resolves to null (here the signed-in subject \<^verbatim>\<open>u4\<close>, which the user store does not
  hold) the read throws a TypeError, the catch block runs, and the answer is 401 with
  \<^verbatim>\<open>{success:false, error, message:"Error in admin middleware"}\<close>, carrying the TypeError.
\<close>

theorem isAdmin_no_record:
  "lookup_fn demo_env ''u4'' = Inr None \<and>
   isAdmin demo_env next_fn (signed_in ''u4'') =
     (Inr (),
      \<lparr>req = \<lparr>authorization = Some ''Bearer good.jwt'',
               user = Some \<lparr>sub_id = ''u4'', exp = 1700000000\<rparr>\<rparr>,
        sent =
          [\<lparr>status = 401,
            payload =
              \<lparr>success = False,
                error = Some (TypeError ''Cannot read properties of null (reading 'role')''),
                message = ''Error in admin middleware''\<rparr>\<rparr>],
        console = [LogError (TypeError ''Cannot read properties of null (reading 'role')'')],
        verify_calls = [], lookup_calls = [''u4''], next_calls = 0\<rparr>) \<and>
   payload (last (sent (snd (isAdmin demo_env next_fn (signed_in ''u4''))))) \<noteq>
     \<lparr>success = False, error = None, message = ''UnAuthorized Access''\<rparr>"
  by (simp add: isAdmin_def gate_defs demo_env_def signed_in_def)

text \<open>
  C2. For every request with no authorization header, \<^verbatim>\<open>requireSignIn\<close> logs the missing
  token, answers 401 with \<^verbatim>\<open>{success:false, message:"Unauthorized: Missing token"}\<close>,
  returns, and never calls \<^verbatim>\<open>JWT.verify\<close>; this whatever \<^verbatim>\<open>next\<close> is.
\<close>

theorem requireSignIn_missing_header:
  assumes "authorization (req s) = None"
  shows "requireSignIn env next s =
     (Inr (),
      s\<lparr>console := console s @ [LogText ''Missing authorization token''],
        sent := sent s @
          [\<lparr>status = 401,
            payload = \<lparr>success = False, error = None,
                       message = ''Unauthorized: Missing token''\<rparr>\<rparr>]\<rparr>)
     \<and> verify_calls (snd (requireSignIn env next s)) = verify_calls s"
  using assms by (simp add: requireSignIn_def gate_defs)

theorem requireSignIn_missing_header_witness:
  "authorization (req (arriving None)) = None \<and>
   requireSignIn demo_env next_fn (arriving None) =
     (Inr (),
      \<lparr>req = \<lparr>authorization = None, user = None\<rparr>,
        sent =
          [\<lparr>status = 401,
            payload = \<lparr>success = False, error = None,
                       message = ''Unauthorized: Missing token''\<rparr>\<rparr>],
        console = [LogText ''Missing authorization token''],
        verify_calls = [], lookup_calls = [], next_calls = 0\<rparr>)
   \<and> verify_calls (snd (requireSignIn demo_env next_fn (arriving None))) = []"
  using requireSignIn_missing_header [of "arriving None" demo_env next_fn]
  by (simp add: arriving_def)

text \<open>
  C3. For every request whose header is present and whose credential the verification
  rejects, for whatever reason \<open>e\<close>, \<^verbatim>\<open>requireSignIn\<close> logs \<open>e\<close>, answers 401 with
  \<^verbatim>\<open>{success:false, message:"Unauthorized: Invalid token"}\<close> and returns normally: the
  outcome is \<open>Inr\<close>, no exception reaches the caller. \<^verbatim>\<open>next\<close> is not called.
\<close>

theorem requireSignIn_invalid_token:
  assumes "authorization (req s) = Some h"
    and "h \<noteq> []"
    and "verify_fn env (token_of h) (JWT_SECRET env) = Inl e"
  shows "requireSignIn env next s =
     (Inr (),
      s\<lparr>verify_calls := verify_calls s @ [(token_of h, JWT_SECRET env)],
        console := console s @ [LogError e],
        sent := sent s @
          [\<lparr>status = 401,
            payload = \<lparr>success = False, error = None,
                       message = ''Unauthorized: Invalid token''\<rparr>\<rparr>]\<rparr>)
     \<and> next_calls (snd (requireSignIn env next_fn s)) = next_calls s"
  using assms by (simp add: requireSignIn_def gate_defs)

theorem requireSignIn_invalid_token_witness:
  "authorization (req (arriving (Some ''Bearer expired.jwt''))) = Some ''Bearer expired.jwt'' \<and>
   ''Bearer expired.jwt'' \<noteq> [] \<and>
   verify_fn demo_env (token_of ''Bearer expired.jwt'') (JWT_SECRET demo_env) =
     Inl (VerificationError ''invalid signature'') \<and>
   requireSignIn demo_env next_fn (arriving (Some ''Bearer expired.jwt'')) =
     (Inr (),
      \<lparr>req = \<lparr>authorization = Some ''Bearer expired.jwt'', user = None\<rparr>,
        sent =
          [\<lparr>status = 401,
            payload = \<lparr>success = False, error = None,
                       message = ''Unauthorized: Invalid token''\<rparr>\<rparr>],
        console = [LogError (VerificationError ''invalid signature'')],
        verify_calls = [(''expired.jwt'', Some ''s3cret'')], lookup_calls = [],
        next_calls = 0\<rparr>)"
proof -
  have tok: "token_of ''Bearer expired.jwt'' = ''expired.jwt''"
    using token_of_bearer [of "''expired.jwt''"] by simp
  have h1: "authorization (req (arriving (Some ''Bearer expired.jwt''))) = Some ''Bearer expired.jwt''"
    by (simp add: arriving_def)
  have h2: "''Bearer expired.jwt'' \<noteq> []"
    by simp
  have h3: "verify_fn demo_env (token_of ''Bearer expired.jwt'') (JWT_SECRET demo_env) =
     Inl (VerificationError ''invalid signature'')"
    by (simp add: tok demo_env_def)
  show ?thesis
    using h1 h3 tok requireSignIn_invalid_token [OF h1 h2 h3, of next_fn]
    by (simp add: arriving_def demo_env_def)
qed

text \<open>
  C4. For every request that carries a credential \<open>t\<close> which the verification accepts with
  the claim set \<open>c\<close>, as the bare header \<open>t\<close> or as \<^verbatim>\<open>Bearer \<close> followed by \<open>t\<close>,
  \<^verbatim>\<open>requireSignIn\<close> verifies exactly \<open>t\<close>, attaches \<open>c\<close> (so the subject id the credential
  encodes) as \<^verbatim>\<open>req.user\<close>, calls \<^verbatim>\<open>next\<close> once, sends nothing and returns. A credential
  is not empty and does not itself begin with \<^verbatim>\<open>Bearer \<close>.
\<close>

theorem requireSignIn_valid_token:
  assumes "verify_fn env t (JWT_SECRET env) = Inr c"
    and "t \<noteq> []"
    and "\<not> startsWith t ''Bearer ''"
    and "authorization (req s) = Some h"
    and "h = t \<or> h = ''Bearer '' @ t"
  shows "requireSignIn env next_fn s =
     (Inr (),
      s\<lparr>verify_calls := verify_calls s @ [(t, JWT_SECRET env)],
        req := (req s)\<lparr>user := Some c\<rparr>,
        next_calls := Suc (next_calls s)\<rparr>)
     \<and> map_option sub_id (user (req (snd (requireSignIn env next_fn s)))) = Some (sub_id c)"
proof -
  have tok: "token_of h = t" and ne: "h \<noteq> []"
    using assms(2,3,5) token_of_bearer token_of_bare by auto
  show ?thesis
    using assms(1,4) tok ne by (simp add: requireSignIn_def gate_defs)
qed

theorem requireSignIn_valid_token_witness:
  "verify_fn demo_env ''good.jwt'' (JWT_SECRET demo_env) =
     Inr \<lparr>sub_id = ''u1'', exp = 1700000000\<rparr> \<and>
   \<not> startsWith ''good.jwt'' ''Bearer '' \<and>
   requireSignIn demo_env next_fn (arriving (Some ''Bearer good.jwt'')) =
     (Inr (),
      \<lparr>req = \<lparr>authorization = Some ''Bearer good.jwt'',
               user = Some \<lparr>sub_id = ''u1'', exp = 1700000000\<rparr>\<rparr>,
        sent = [], console = [], verify_calls = [(''good.jwt'', Some ''s3cret'')],
        lookup_calls = [], next_calls = 1\<rparr>) \<and>
   requireSignIn demo_env next_fn (arriving (Some ''good.jwt'')) =
     (Inr (),
      \<lparr>req = \<lparr>authorization = Some ''good.jwt'',
               user = Some \<lparr>sub_id = ''u1'', exp = 1700000000\<rparr>\<rparr>,
        sent = [], console = [], verify_calls = [(''good.jwt'', Some ''s3cret'')],
        lookup_calls = [], next_calls = 1\<rparr>)"
proof -
  have h1: "verify_fn demo_env ''good.jwt'' (JWT_SECRET demo_env) =
     Inr \<lparr>sub_id = ''u1'', exp = 1700000000\<rparr>"
    by (simp add: demo_env_def)
  have h2: "''good.jwt'' \<noteq> []"
    by simp
  have h3: "\<not> startsWith ''good.jwt'' ''Bearer ''"
    by (simp add: startsWith_def)
  have h4: "authorization (req (arriving (Some ''Bearer good.jwt''))) = Some ''Bearer good.jwt''"
    by (simp add: arriving_def)
  have h4': "authorization (req (arriving (Some ''good.jwt''))) = Some ''good.jwt''"
    by (simp add: arriving_def)
  have h5: "''Bearer good.jwt'' = ''good.jwt'' \<or> ''Bearer good.jwt'' = ''Bearer '' @ ''good.jwt''"
    by simp
  have h5': "''good.jwt'' = ''good.jwt'' \<or> ''good.jwt'' = ''Bearer '' @ ''good.jwt''"
    by simp
  show ?thesis
    using h1 h3 requireSignIn_valid_token [OF h1 h2 h3 h4 h5]
      requireSignIn_valid_token [OF h1 h2 h3 h4' h5']
    by (simp add: arriving_def demo_env_def)
qed

text \<open>
  C5. For every request on which the identity lookup itself fails with an error \<open>e\<close>,
  \<^verbatim>\<open>isAdmin\<close> logs \<open>e\<close>, answers 401 with
  \<^verbatim>\<open>{success:false, error: e, message:"Error in admin middleware"}\<close> and returns; the
  result is the same whatever \<^verbatim>\<open>next\<close> is, and \<^verbatim>\<open>next\<close> is not called.
\<close>

theorem isAdmin_lookup_fails:
  assumes "user (req s) = Some c"
    and "lookup_fn env (sub_id c) = Inl e"
  shows "isAdmin env next s =
     (Inr (),
      s\<lparr>lookup_calls := lookup_calls s @ [sub_id c],
        console := console s @ [LogError e],
        sent := sent s @
          [\<lparr>status = 401,
            payload = \<lparr>success = False, error = Some e,
                       message = ''Error in admin middleware''\<rparr>\<rparr>]\<rparr>)
     \<and> next_calls (snd (isAdmin env next_fn s)) = next_calls s"
  using assms by (simp add: isAdmin_def gate_defs)

theorem isAdmin_lookup_fails_witness:
  "user (req (signed_in ''u3'')) = Some \<lparr>sub_id = ''u3'', exp = 1700000000\<rparr> \<and>
   lookup_fn demo_env ''u3'' = Inl (StoreError ''connection lost'') \<and>
   isAdmin demo_env next_fn (signed_in ''u3'') =
     (Inr (),
      \<lparr>req = \<lparr>authorization = Some ''Bearer good.jwt'',
               user = Some \<lparr>sub_id = ''u3'', exp = 1700000000\<rparr>\<rparr>,
        sent =
          [\<lparr>status = 401,
            payload = \<lparr>success = False, error = Some (StoreError ''connection lost''),
                       message = ''Error in admin middleware''\<rparr>\<rparr>],
        console = [LogError (StoreError ''connection lost'')],
        verify_calls = [], lookup_calls = [''u3''], next_calls = 0\<rparr>)"
proof -
  have h1: "user (req (signed_in ''u3'')) = Some \<lparr>sub_id = ''u3'', exp = 1700000000\<rparr>"
    by (simp add: signed_in_def)
  have h2: "lookup_fn demo_env (sub_id \<lparr>sub_id = ''u3'', exp = 1700000000\<rparr>) =
     Inl (StoreError ''connection lost'')"
    by (simp add: demo_env_def)
  show ?thesis
    using h1 h2 isAdmin_lookup_fails [OF h1 h2, of next_fn]
    by (simp add: signed_in_def)
qed

text \<open>
  C6. On a route gated by \<^verbatim>\<open>requireSignIn\<close> and then \<^verbatim>\<open>isAdmin\<close>, every request that is
  not authenticated (no header, an empty header, or a credential the verification
  rejects) gets exactly one answer, 401 with \<^verbatim>\<open>Unauthorized: Missing token\<close> or
  \<^verbatim>\<open>Unauthorized: Invalid token\<close>, never \<^verbatim>\<open>UnAuthorized Access\<close>; \<^verbatim>\<open>isAdmin\<close> is not
  reached (no identity lookup is made), whatever the handler behind the gates is.
\<close>

theorem admin_gated_unauthenticated:
  assumes "authorization (req s) = None \<or> authorization (req s) = Some []
     \<or> (\<exists>h e. authorization (req s) = Some h
            \<and> verify_fn env (token_of h) (JWT_SECRET env) = Inl e)"
  shows "\<exists>m. (m = ''Unauthorized: Missing token'' \<or> m = ''Unauthorized: Invalid token'')
     \<and> m \<noteq> ''UnAuthorized Access''
     \<and> fst (admin_gated env handler s) = Inr ()
     \<and> sent (snd (admin_gated env handler s)) =
         sent s @ [\<lparr>status = 401,
                    payload = \<lparr>success = False, error = None, message = m\<rparr>\<rparr>]
     \<and> lookup_calls (snd (admin_gated env handler s)) = lookup_calls s"
proof -
  consider (absent) "authorization (req s) = None"
    | (empty) "authorization (req s) = Some []"
    | (rejected) h e where "authorization (req s) = Some h" "h \<noteq> []"
        "verify_fn env (token_of h) (JWT_SECRET env) = Inl e"
    using assms by (cases "authorization (req s)") auto
  then show ?thesis
  proof cases
    case absent
    have "''Unauthorized: Missing token'' \<noteq> ''UnAuthorized Access''" by simp
    then show ?thesis
      unfolding admin_gated_def requireSignIn_none_header [OF absent]
      by (intro exI [of _ "''Unauthorized: Missing token''"]) simp
  next
    case empty
    have "''Unauthorized: Missing token'' \<noteq> ''UnAuthorized Access''" by simp
    then show ?thesis
      unfolding admin_gated_def requireSignIn_empty_header [OF empty]
      by (intro exI [of _ "''Unauthorized: Missing token''"]) simp
  next
    case rejected
    have "''Unauthorized: Invalid token'' \<noteq> ''UnAuthorized Access''" by simp
    then show ?thesis
      unfolding admin_gated_def requireSignIn_rejected_token [OF rejected]
      by (intro exI [of _ "''Unauthorized: Invalid token''"]) simp
  qed
qed

theorem admin_gated_unauthenticated_witness:
  "(authorization (req (arriving (Some ''Bearer forged.jwt''))) = None
    \<or> authorization (req (arriving (Some ''Bearer forged.jwt''))) = Some []
    \<or> (\<exists>h e. authorization (req (arriving (Some ''Bearer forged.jwt''))) = Some h
           \<and> verify_fn demo_env (token_of h) (JWT_SECRET demo_env) = Inl e))
   \<and> (\<exists>m. (m = ''Unauthorized: Missing token'' \<or> m = ''Unauthorized: Invalid token'')
     \<and> m \<noteq> ''UnAuthorized Access''
     \<and> fst (admin_gated demo_env next_fn (arriving (Some ''Bearer forged.jwt''))) = Inr ()
     \<and> sent (snd (admin_gated demo_env next_fn (arriving (Some ''Bearer forged.jwt'')))) =
         sent (arriving (Some ''Bearer forged.jwt''))
         @ [\<lparr>status = 401, payload = \<lparr>success = False, error = None, message = m\<rparr>\<rparr>]
     \<and> lookup_calls (snd (admin_gated demo_env next_fn (arriving (Some ''Bearer forged.jwt''))))
         = lookup_calls (arriving (Some ''Bearer forged.jwt'')))"
proof -
  have tok: "token_of ''Bearer forged.jwt'' = ''forged.jwt''"
    using token_of_bearer [of "''forged.jwt''"] by simp
  have rej: "verify_fn demo_env (token_of ''Bearer forged.jwt'') (JWT_SECRET demo_env) =
     Inl (VerificationError ''invalid signature'')"
    by (simp add: tok demo_env_def)
  have hdr: "authorization (req (arriving (Some ''Bearer forged.jwt''))) = Some ''Bearer forged.jwt''"
    by (simp add: arriving_def)
  have h: "authorization (req (arriving (Some ''Bearer forged.jwt''))) = None
    \<or> authorization (req (arriving (Some ''Bearer forged.jwt''))) = Some []
    \<or> (\<exists>h e. authorization (req (arriving (Some ''Bearer forged.jwt''))) = Some h
           \<and> verify_fn demo_env (token_of h) (JWT_SECRET demo_env) = Inl e)"
    using hdr rej by blast
  show ?thesis
    by (rule conjI [OF h admin_gated_unauthenticated [OF h]])
qed

text \<open>
  C10. On every state and in every environment, so with the header absent, with a
  credential that is rejected and with one that is accepted, one call of \<^verbatim>\<open>requireSignIn\<close>
  with a \<^verbatim>\<open>next\<close> that records its call and returns does exactly one of two things: it
  sends exactly one response and does not call \<^verbatim>\<open>next\<close>, or it calls \<^verbatim>\<open>next\<close> exactly
  once and sends no response. In both cases it returns normally.
\<close>

theorem requireSignIn_response_xor_next:
  "fst (requireSignIn env next_fn s) = Inr () \<and>
   (let s' = snd (requireSignIn env next_fn s) in
      ((\<exists>r. sent s' = sent s @ [r]) \<and> next_calls s' = next_calls s)
      \<noteq> (sent s' = sent s \<and> next_calls s' = Suc (next_calls s)))"
  by (simp add: requireSignIn_def gate_defs Let_def split: option.splits sum.splits)

section \<open>PersistedStateStore: what the operations guarantee\<close>

text \<open>
  C7. Round trip: for every value \<open>v\<close> that is serialisable (deserialising its
  serialisation gives \<open>v\<close> back), after \<^verbatim>\<open>set(v)\<close> the in-memory value is \<open>v\<close>, and an
  \<^verbatim>\<open>initialize\<close> of the same slot on the storage the store leaves behind returns \<open>v\<close>.
\<close>

theorem set_then_initialize:
  assumes "deserialize c (serialize c v) = Inr v"
  shows "current (set_value c (Literal v) st) = v \<and>
     fst (initialize c (slot st) (dev (set_value c (Literal v) st))) = Inr v"
  using assms by (simp add: set_value_def initialize_def store_defs Let_def)

theorem set_then_initialize_witness:
  "deserialize cart_codec (serialize cart_codec [''y'']) = Inr [''y''] \<and>
   current (set_value cart_codec (Literal [''y'']) (cart_store [])) = [''y''] \<and>
   fst (initialize cart_codec ''cart''
          (dev (set_value cart_codec (Literal [''y'']) (cart_store [])))) = Inr [''y'']"
proof -
  have h: "deserialize cart_codec (serialize cart_codec [''y'']) = Inr [''y'']"
    by (simp add: cart_defs)
  show ?thesis
    using h set_then_initialize [OF h, of "cart_store []"] by (simp add: cart_store_def)
qed

text \<open>
  C8. Corruption recovery: for every string stored under the slot's name that does not
  parse (deserialising throws \<open>e\<close>), \<^verbatim>\<open>initialize\<close> returns the empty value, with outcome
  \<open>Inr\<close> (nothing is thrown to the caller), logs \<open>e\<close>, and issues, after the read, the
  removal of that key, which is then absent from the storage.
\<close>

theorem initialize_corrupt:
  assumes "durable d name = Some raw"
    and "deserialize c raw = Inl e"
  shows "initialize c name d =
     (Inr (empty_value c),
      d\<lparr>issued := issued d @ [GetItem name, RemoveItem name],
        error_log := error_log d @ [e],
        durable := (durable d)(name := None)\<rparr>)"
  using assms by (simp add: initialize_def store_defs)

theorem initialize_corrupt_witness:
  "durable corrupt_device ''cart'' = Some ''{not-json'' \<and>
   deserialize cart_codec ''{not-json'' = Inl (SyntaxError ''Unexpected token'') \<and>
   initialize cart_codec ''cart'' corrupt_device =
     (Inr [],
      \<lparr>durable = Map.empty, issued = [GetItem ''cart'', RemoveItem ''cart''],
        error_log = [SyntaxError ''Unexpected token'']\<rparr>)"
proof -
  have h1: "durable corrupt_device ''cart'' = Some ''{not-json''"
    by (simp add: corrupt_device_def)
  have h2: "deserialize cart_codec ''{not-json'' = Inl (SyntaxError ''Unexpected token'')"
    by (simp add: cart_defs)
  show ?thesis
    using h1 h2 initialize_corrupt [OF h1 h2] by (simp add: cart_defs)
qed

text \<open>
  C9. Functional update: when the in-memory value is \<open>[a]\<close>, \<^verbatim>\<open>set\<close> with the updater
  \<^verbatim>\<open>prev => [...prev, b]\<close> leaves \<open>[a, b]\<close> in memory and the serialisation of \<open>[a, b]\<close> in
  storage under the slot's name, and a second such update with \<open>b'\<close> starts from \<open>[a, b]\<close>,
  not from the earlier \<open>[a]\<close>.
\<close>

theorem set_value_updater:
  assumes "current st = [a]"
  shows "(let st' = set_value c (Updater (\<lambda>prev. prev @ [b])) st in
     current st' = [a, b]
     \<and> durable (dev st') (slot st) = Some (serialize c [a, b])
     \<and> current (set_value c (Updater (\<lambda>prev. prev @ [b'])) st') = [a, b, b'])"
  using assms by (simp add: set_value_def store_defs Let_def)

theorem set_value_updater_witness:
  "current (cart_store [''seed'']) = [''seed''] \<and>
   (let st' = set_value cart_codec (Updater (\<lambda>prev. prev @ [''x''])) (cart_store [''seed'']) in
     current st' = [''seed'', ''x'']
     \<and> durable (dev st') ''cart'' = Some ''[seed,x]''
     \<and> current (set_value cart_codec (Updater (\<lambda>prev. prev @ [''z''])) st')
         = [''seed'', ''x'', ''z''])"
proof -
  have h: "current (cart_store [''seed'']) = [''seed'']"
    by (simp add: cart_store_def)
  show ?thesis
    using h set_value_updater [OF h, of cart_codec "''x''" "''z''"]
    by (simp add: cart_defs Let_def)
qed

end
